theory Spec2Isabelle
  imports Complex_Main "HOL-Library.DAList"
begin

section \<open>Python values used by \<open>rag_groq.py\<close>\<close>

text \<open>
  Python strings are modelled as \<open>string\<close>, lists of strings as \<open>string list\<close>, and an
  optional argument (\<open>x: str = None\<close>) as an \<open>option\<close>.  The source tests its arguments
  by truthiness: \<open>None\<close>, the empty string and the empty list are false, everything else
  is true.
\<close>

definition nl :: string where
  "nl = [CHR 0x0A]"

definition apos :: string where
  "apos = [CHR 0x27]"

definition truthy :: "'a list option \<Rightarrow> bool" where
  "truthy v = (case v of None \<Rightarrow> False | Some xs \<Rightarrow> xs \<noteq> [])"

text \<open>\<open>a or b\<close> where both operands may be \<open>None\<close>.\<close>

definition or_opt :: "'a list option \<Rightarrow> 'a list option \<Rightarrow> 'a list option" where
  "or_opt a b = (if truthy a then a else b)"

text \<open>\<open>a or d\<close> where \<open>d\<close> is a literal of the source.\<close>

definition or_val :: "'a list option \<Rightarrow> 'a list \<Rightarrow> 'a list" where
  "or_val a d = (case a of None \<Rightarrow> d | Some xs \<Rightarrow> if xs \<noteq> [] then xs else d)"

text \<open>\<open>sep.join(xs)\<close>.\<close>

fun join :: "string \<Rightarrow> string list \<Rightarrow> string" where
  "join sep [] = []"
| "join sep [x] = x"
| "join sep (x # y # ys) = x @ sep @ join sep (y # ys)"

text \<open>\<open>xs[-3:]\<close>: the slice starts at \<open>max (len xs - 3) 0\<close>.\<close>

definition last3 :: "'a list \<Rightarrow> 'a list" where
  "last3 xs = drop (length xs - 3) xs"

text \<open>\<open>xs.pop(i)\<close> for an index in range, keeping the list only.\<close>

definition pop :: "nat \<Rightarrow> 'a list \<Rightarrow> 'a list" where
  "pop i xs = take i xs @ drop (Suc i) xs"

section \<open>Data model\<close>

text \<open>
  A user profile is the dictionary built by \<open>create_or_update_user\<close>, with its four keys;
  a document is the dictionary built by \<open>load_pdf\<close>.
\<close>

record profile =
  user_id :: string
  name :: string
  preferences :: "string list"
  purchase_history :: "string list"

record document =
  doc_name :: string
  doc_text :: string
  pages :: nat
  char_count :: nat

record message =
  role :: string
  content :: string

text \<open>
  The request of \<open>client.chat.completions.create\<close> and the parts of its response that the
  source reads: \<open>response.choices[0].message.content\<close> (\<open>None\<close> when that access raises),
  the attribute \<open>text\<close> if there is one, and \<open>str(response)\<close>.
\<close>

record request =
  req_model :: string
  req_messages :: "message list"
  temperature :: real
  max_tokens :: nat

record response =
  choice_content :: "string option"
  text_attr :: "string option"
  str_repr :: string

text \<open>
  A configured client answers a request with a response, or raises; \<open>Inl e\<close> is the
  exception, \<open>e\<close> being \<open>str(e)\<close>.
\<close>

type_synonym groq_client = "request \<Rightarrow> string + response"

text \<open>
  \<open>self.users\<close> is a Python dictionary from user ids to profiles: it has no key twice
  and keeps its keys in the order of their insertion.  It is an \<open>alist\<close>, the type of
  association lists with distinct keys, where \<open>DAList.update\<close> replaces the value of a
  key in place and appends a new key at the end, as the assignment \<open>d[k] = v\<close> does.
\<close>

record UserContextDB =
  users :: "(string, profile) alist"
  users_file :: string

record SimpleRAG =
  model :: string
  documents :: "document list"
  conversation_history :: "message list"
  client :: "groq_client option"
  user_db :: UserContextDB

section \<open>The world outside the program\<close>

text \<open>
  The file system maps a path to the text of the file there.  The process environment
  and the \<open>groq\<close> package are not part of the repository: they are parameters of the
  model.  \<open>can_write\<close> and \<open>can_read\<close> say whether \<open>open\<close> succeeds on a path;
  \<open>groq\<close> is \<open>None\<close> when the package is not installed, and otherwise the constructor
  \<open>Groq(api_key=...)\<close>, which may raise.
\<close>

type_synonym files = "string \<rightharpoonup> string"

record world =
  can_write :: "string \<Rightarrow> bool"
  can_read :: "string \<Rightarrow> bool"
  getenv :: "string \<rightharpoonup> string"
  groq :: "(string \<Rightarrow> string + groq_client) option"

section \<open>The \<open>json\<close> module\<close>

text \<open>
  \<open>save_to_file\<close> and \<open>load_from_file\<close> call \<open>json.dump(self.users, f, indent=2)\<close> and
  \<open>json.load(f)\<close> of Python's standard library.  They are modelled on the values that a
  store of profiles holds: strings, lists and dictionaries.  A character is a byte here,
  read as the code point of the same number.
\<close>

datatype json = JStr string | JArr "json list" | JObj "(string \<times> json) list"

definition dquote :: char where
  "dquote = CHR 0x22"

definition backslash :: char where
  "backslash = CHR 0x5C"

definition hex_digit :: "nat \<Rightarrow> char" where
  "hex_digit d = (if d < 10 then char_of (48 + d) else char_of (87 + d))"

text \<open>
  With \<open>ensure_ascii\<close>, its default, the encoder writes the quote, the backslash and five
  control characters as two characters, every other character outside the range from the
  space to the tilde as \<open>\u\<close> and four hexadecimal digits in lower case, and the rest as
  they are.
\<close>

definition escape_char :: "char \<Rightarrow> string" where
  "escape_char c =
     (if c = dquote then [backslash, dquote]
      else if c = backslash then [backslash, backslash]
      else if c = CHR 0x0A then [backslash, CHR ''n'']
      else if c = CHR 0x0D then [backslash, CHR ''r'']
      else if c = CHR 0x09 then [backslash, CHR ''t'']
      else if c = CHR 0x08 then [backslash, CHR ''b'']
      else if c = CHR 0x0C then [backslash, CHR ''f'']
      else if 32 \<le> (of_char c :: nat) \<and> (of_char c :: nat) \<le> 126 then [c]
      else [backslash, CHR ''u'', CHR ''0'', CHR ''0'',
            hex_digit ((of_char c :: nat) div 16), hex_digit ((of_char c :: nat) mod 16)])"

definition encode_string :: "string \<Rightarrow> string" where
  "encode_string s = dquote # concat (map escape_char s) @ [dquote]"

definition newline_indent :: "nat \<Rightarrow> string" where
  "newline_indent n = CHR 0x0A # replicate (2 * n) (CHR '' '')"

text \<open>
  The encoder at nesting level \<open>n\<close>, with \<open>indent=2\<close>: an empty list is \<open>[]\<close> and an empty
  dictionary \<open>{}\<close>; otherwise every item is on a line of its own, indented by two spaces
  for each level, the items are separated by a comma and a key from its value by a colon
  and a space.
\<close>

fun encode :: "nat \<Rightarrow> json \<Rightarrow> string" where
  "encode n (JStr s) = encode_string s"
| "encode n (JArr xs) =
     (if xs = [] then ''[]''
      else ''['' @ newline_indent (Suc n) @
           join ('','' @ newline_indent (Suc n)) (map (encode (Suc n)) xs) @
           newline_indent n @ '']'')"
| "encode n (JObj kvs) =
     (if kvs = [] then ''{}''
      else ''{'' @ newline_indent (Suc n) @
           join ('','' @ newline_indent (Suc n))
             (map (\<lambda>kv. encode_string (fst kv) @ '': '' @ encode (Suc n) (snd kv)) kvs) @
           newline_indent n @ ''}'')"

definition json_dumps :: "json \<Rightarrow> string" where
  "json_dumps v = encode 0 v"

definition hex_val :: "char \<Rightarrow> nat option" where
  "hex_val c =
     (let n = (of_char c :: nat)
      in if 48 \<le> n \<and> n \<le> 57 then Some (n - 48)
         else if 97 \<le> n \<and> n \<le> 102 then Some (n - 87)
         else if 65 \<le> n \<and> n \<le> 70 then Some (n - 55)
         else None)"

definition unescape :: "char \<Rightarrow> char option" where
  "unescape e =
     (if e = dquote then Some dquote
      else if e = backslash then Some backslash
      else if e = CHR ''/'' then Some (CHR ''/'')
      else if e = CHR ''b'' then Some (CHR 0x08)
      else if e = CHR ''f'' then Some (CHR 0x0C)
      else if e = CHR ''n'' then Some (CHR 0x0A)
      else if e = CHR ''r'' then Some (CHR 0x0D)
      else if e = CHR ''t'' then Some (CHR 0x09)
      else None)"

definition cons_char :: "char \<Rightarrow> (string \<times> string) option \<Rightarrow> (string \<times> string) option" where
  "cons_char c r = (case r of None \<Rightarrow> None | Some (s, rest) \<Rightarrow> Some (c # s, rest))"

text \<open>
  The decoder of a string, from the character after the opening quote: it returns the
  string and the text after the closing quote, and \<open>None\<close> where the decoder raises (no
  closing quote, a control character, an escape it does not know).  A \<open>\u\<close> escape above
  255 has no byte and is \<open>None\<close> as well.
\<close>

fun scanstring :: "string \<Rightarrow> (string \<times> string) option" where
  "scanstring [] = None"
| "scanstring (c # cs) =
     (if c = dquote then Some ([], cs)
      else if c = backslash then
        (case cs of
           [] \<Rightarrow> None
         | e # r \<Rightarrow>
             if e = CHR ''u'' then
               (case r of
                  h1 # h2 # h3 # h4 # r' \<Rightarrow>
                    (case (hex_val h1, hex_val h2, hex_val h3, hex_val h4) of
                       (Some a, Some b, Some c', Some d) \<Rightarrow>
                         (let n = ((a * 16 + b) * 16 + c') * 16 + d
                          in if n < 256 then cons_char (char_of n) (scanstring r') else None)
                     | _ \<Rightarrow> None)
                | _ \<Rightarrow> None)
             else (case unescape e of
                     None \<Rightarrow> None
                   | Some ch \<Rightarrow> cons_char ch (scanstring r)))
      else if (of_char c :: nat) < 32 then None
      else cons_char c (scanstring cs))"

definition is_ws :: "char \<Rightarrow> bool" where
  "is_ws c = (c = CHR '' '' \<or> c = CHR 0x09 \<or> c = CHR 0x0A \<or> c = CHR 0x0D)"

definition skip_ws :: "string \<Rightarrow> string" where
  "skip_ws s = dropWhile is_ws s"

text \<open>
  \<open>dict(pairs)\<close>: a key that occurs again replaces the value and keeps its place.
\<close>

definition dict_of_pairs :: "(string \<times> 'v) list \<Rightarrow> (string \<times> 'v) list" where
  "dict_of_pairs kvs = fold (\<lambda>kv d. AList.update (fst kv) (snd kv) d) kvs []"

text \<open>
  The decoder of a value, of the items of a list (from the first item) and of the items
  of a dictionary (from the character after the opening quote of the first key).  Each
  returns what it read and the text after it, and \<open>None\<close> where the decoder raises.  The
  first argument bounds the number of nested calls; \<open>json_loads\<close> gives the length of the
  text, which is enough for every text, a call consuming at least one character.
  Numbers, \<open>true\<close>, \<open>false\<close> and \<open>null\<close> do not occur in a store of profiles and are not
  modelled: the model answers \<open>None\<close> on them.
\<close>

fun parse_value :: "nat \<Rightarrow> string \<Rightarrow> (json \<times> string) option"
  and parse_array_items :: "nat \<Rightarrow> string \<Rightarrow> (json list \<times> string) option"
  and parse_object_items :: "nat \<Rightarrow> string \<Rightarrow> ((string \<times> json) list \<times> string) option" where
  "parse_value 0 s = None"
| "parse_value (Suc f) s =
     (case s of
        [] \<Rightarrow> None
      | c # cs \<Rightarrow>
          if c = dquote then
            (case scanstring cs of
               None \<Rightarrow> None
             | Some (str, r) \<Rightarrow> Some (JStr str, r))
          else if c = CHR ''{'' then
            (case skip_ws cs of
               [] \<Rightarrow> None
             | d # ds \<Rightarrow>
                 if d = CHR ''}'' then Some (JObj [], ds)
                 else if d = dquote then
                   (case parse_object_items f ds of
                      None \<Rightarrow> None
                    | Some (kvs, r) \<Rightarrow> Some (JObj (dict_of_pairs kvs), r))
                 else None)
          else if c = CHR ''['' then
            (case skip_ws cs of
               [] \<Rightarrow> None
             | d # ds \<Rightarrow>
                 if d = CHR '']'' then Some (JArr [], ds)
                 else (case parse_array_items f (d # ds) of
                         None \<Rightarrow> None
                       | Some (vs, r) \<Rightarrow> Some (JArr vs, r)))
          else None)"
| "parse_array_items 0 s = None"
| "parse_array_items (Suc f) s =
     (case parse_value f s of
        None \<Rightarrow> None
      | Some (v, r) \<Rightarrow>
          (case skip_ws r of
             [] \<Rightarrow> None
           | d # ds \<Rightarrow>
               if d = CHR '']'' then Some ([v], ds)
               else if d = CHR '','' then
                 (case parse_array_items f (skip_ws ds) of
                    None \<Rightarrow> None
                  | Some (vs, r') \<Rightarrow> Some (v # vs, r'))
               else None))"
| "parse_object_items 0 s = None"
| "parse_object_items (Suc f) s =
     (case scanstring s of
        None \<Rightarrow> None
      | Some (key, r) \<Rightarrow>
          (case skip_ws r of
             [] \<Rightarrow> None
           | c # r1 \<Rightarrow>
               if c = CHR '':'' then
                 (case parse_value f (skip_ws r1) of
                    None \<Rightarrow> None
                  | Some (v, r2) \<Rightarrow>
                      (case skip_ws r2 of
                         [] \<Rightarrow> None
                       | d # ds \<Rightarrow>
                           if d = CHR ''}'' then Some ([(key, v)], ds)
                           else if d = CHR '','' then
                             (case skip_ws ds of
                                [] \<Rightarrow> None
                              | q # r3 \<Rightarrow>
                                  if q = dquote then
                                    (case parse_object_items f r3 of
                                       None \<Rightarrow> None
                                     | Some (kvs, r') \<Rightarrow> Some ((key, v) # kvs, r'))
                                  else None)
                           else None))
               else None))"

text \<open>
  \<open>json.loads\<close>: white space, one value, white space, and nothing after it.
\<close>

definition json_loads :: "string \<Rightarrow> json option" where
  "json_loads s =
     (case parse_value (length s) (skip_ws s) of
        None \<Rightarrow> None
      | Some (v, r) \<Rightarrow> if skip_ws r = [] then Some v else None)"

text \<open>
  A profile is the dictionary with the keys \<open>user_id\<close>, \<open>name\<close>, \<open>preferences\<close> and
  \<open>purchase_history\<close>, in the order in which \<open>create_or_update_user\<close> writes them, and
  the store the dictionary of the profiles.  Read back, a dictionary is a profile when it
  has these four keys and no other, with strings and lists of strings as their values.
\<close>

definition json_of_profile :: "profile \<Rightarrow> json" where
  "json_of_profile p =
     JObj [(''user_id'', JStr (user_id p)),
           (''name'', JStr (name p)),
           (''preferences'', JArr (map JStr (preferences p))),
           (''purchase_history'', JArr (map JStr (purchase_history p)))]"

definition json_of_users :: "(string, profile) alist \<Rightarrow> json" where
  "json_of_users d = JObj (map (\<lambda>kp. (fst kp, json_of_profile (snd kp))) (DAList.impl_of d))"

fun strings_of_json :: "json list \<Rightarrow> string list option" where
  "strings_of_json [] = Some []"
| "strings_of_json (JStr s # vs) =
     (case strings_of_json vs of None \<Rightarrow> None | Some ss \<Rightarrow> Some (s # ss))"
| "strings_of_json (_ # vs) = None"

fun profile_of_json :: "json \<Rightarrow> profile option" where
  "profile_of_json (JObj kvs) =
     (if length kvs \<noteq> 4 then None
      else
        (case (map_of kvs ''user_id'', map_of kvs ''name'',
               map_of kvs ''preferences'', map_of kvs ''purchase_history'') of
           (Some (JStr i), Some (JStr n), Some (JArr ps), Some (JArr hs)) \<Rightarrow>
             (case (strings_of_json ps, strings_of_json hs) of
                (Some ps', Some hs') \<Rightarrow>
                  Some \<lparr>user_id = i, name = n, preferences = ps', purchase_history = hs'\<rparr>
              | _ \<Rightarrow> None)
         | _ \<Rightarrow> None))"
| "profile_of_json _ = None"

fun profiles_of_json :: "(string \<times> json) list \<Rightarrow> (string \<times> profile) list option" where
  "profiles_of_json [] = Some []"
| "profiles_of_json (kv # kvs) =
     (case profile_of_json (snd kv) of
        None \<Rightarrow> None
      | Some p \<Rightarrow>
          (case profiles_of_json kvs of
             None \<Rightarrow> None
           | Some kps \<Rightarrow> Some ((fst kv, p) # kps)))"

fun users_of_json :: "json \<Rightarrow> (string, profile) alist option" where
  "users_of_json (JObj kvs) =
     (case profiles_of_json kvs of
        None \<Rightarrow> None
      | Some kps \<Rightarrow>
          Some (fold (\<lambda>kp d. DAList.update (fst kp) (snd kp) d) kps DAList.empty))"
| "users_of_json _ = None"




section \<open>UserContextDB\<close>

text \<open>
  A failing \<open>save_to_file\<close> leaves the file as it was; a failing \<open>load_from_file\<close>, or
  a missing file, leaves the store as it was.  A file that holds another JSON value than
  a dictionary of profiles is outside the typed store, and the store is left as it was.
\<close>

definition save_to_file :: "world \<Rightarrow> UserContextDB \<Rightarrow> files \<Rightarrow> files" where
  "save_to_file w self fs =
     (if can_write w (users_file self)
      then fs(users_file self \<mapsto> json_dumps (json_of_users (users self)))
      else fs)"

definition load_from_file :: "world \<Rightarrow> files \<Rightarrow> UserContextDB \<Rightarrow> UserContextDB" where
  "load_from_file w fs self =
     (case fs (users_file self) of
        None \<Rightarrow> self
      | Some c \<Rightarrow>
          (if can_read w (users_file self)
           then (case json_loads c of
                   None \<Rightarrow> self
                 | Some j \<Rightarrow>
                     (case users_of_json j of
                        None \<Rightarrow> self
                      | Some u \<Rightarrow> self\<lparr>users := u\<rparr>))
           else self))"

definition UserContextDB_init :: "world \<Rightarrow> files \<Rightarrow> string \<Rightarrow> UserContextDB" where
  "UserContextDB_init w fs path =
     load_from_file w fs \<lparr>users = DAList.empty, users_file = path\<rparr>"

definition create_or_update_user ::
  "world \<Rightarrow> string \<Rightarrow> string option \<Rightarrow> string list option \<Rightarrow> string list option
     \<Rightarrow> UserContextDB \<Rightarrow> files \<Rightarrow> profile \<times> UserContextDB \<times> files" where
  "create_or_update_user w uid nm prefs hist self fs =
     (let p =
        (case DAList.lookup (users self) uid of
           None \<Rightarrow>
             \<lparr>user_id = uid,
              name = or_val nm (''User_'' @ uid),
              preferences = or_val prefs [],
              purchase_history = or_val hist []\<rparr>
         | Some p0 \<Rightarrow>
             (let p1 = (case nm of
                          None \<Rightarrow> p0
                        | Some n \<Rightarrow> if n \<noteq> [] then p0\<lparr>name := n\<rparr> else p0);
                  p2 = (case prefs of
                          None \<Rightarrow> p1
                        | Some ps \<Rightarrow> if ps \<noteq> [] then p1\<lparr>preferences := ps\<rparr> else p1);
                  p3 = (case hist of
                          None \<Rightarrow> p2
                        | Some hs \<Rightarrow> if hs \<noteq> [] then p2\<lparr>purchase_history := hs\<rparr> else p2)
              in p3));
          self' = self\<lparr>users := DAList.update uid p (users self)\<rparr>
      in (p, self', save_to_file w self' fs))"

definition get_user :: "UserContextDB \<Rightarrow> string \<Rightarrow> profile option" where
  "get_user self uid = DAList.lookup (users self) uid"

definition delete_user ::
  "world \<Rightarrow> string \<Rightarrow> UserContextDB \<Rightarrow> files \<Rightarrow> bool \<times> UserContextDB \<times> files" where
  "delete_user w uid self fs =
     (case DAList.lookup (users self) uid of
        Some _ \<Rightarrow>
          (let self' = self\<lparr>users := DAList.delete uid (users self)\<rparr>
           in (True, self', save_to_file w self' fs))
      | None \<Rightarrow> (False, self, fs))"

definition clear_all :: "world \<Rightarrow> UserContextDB \<Rightarrow> files \<Rightarrow> UserContextDB \<times> files" where
  "clear_all w self fs =
     (let self' = self\<lparr>users := DAList.empty\<rparr> in (self', save_to_file w self' fs))"

text \<open>
  A sequence of \<open>create_or_update_user\<close> calls, each with its arguments, run in order.
\<close>

record upsert_call =
  arg_user_id :: string
  arg_name :: "string option"
  arg_preferences :: "string list option"
  arg_purchase_history :: "string list option"

fun run_upserts ::
  "world \<Rightarrow> upsert_call list \<Rightarrow> UserContextDB \<Rightarrow> files \<Rightarrow> UserContextDB \<times> files" where
  "run_upserts w [] self fs = (self, fs)"
| "run_upserts w (c # cs) self fs =
     (case create_or_update_user w (arg_user_id c) (arg_name c) (arg_preferences c)
             (arg_purchase_history c) self fs of
        (_, self', fs') \<Rightarrow> run_upserts w cs self' fs')"

text \<open>
  The specification's "last non-empty value supplied": the last truthy value in a list of
  arguments, \<open>None\<close> when every argument was absent or empty.
\<close>

fun last_supplied :: "'a list option list \<Rightarrow> 'a list option" where
  "last_supplied [] = None"
| "last_supplied (v # vs) =
     (case last_supplied vs of
        Some x \<Rightarrow> Some x
      | None \<Rightarrow> (if truthy v then v else None))"

text \<open>
  The profile the specification promises for an id after the calls \<open>cs\<close> made for it,
  \<open>old\<close> being what the store held for the id before: every field is the last non-empty
  value supplied, else the old value, else the default of a new profile.
\<close>

definition merged_profile :: "string \<Rightarrow> profile option \<Rightarrow> upsert_call list \<Rightarrow> profile option" where
  "merged_profile uid old cs =
     (if cs = [] then old
      else Some
        \<lparr>user_id = (case old of None \<Rightarrow> uid | Some p \<Rightarrow> user_id p),
         name =
           (case last_supplied (map arg_name cs) of
              Some n \<Rightarrow> n
            | None \<Rightarrow> (case old of None \<Rightarrow> ''User_'' @ uid | Some p \<Rightarrow> name p)),
         preferences =
           (case last_supplied (map arg_preferences cs) of
              Some ps \<Rightarrow> ps
            | None \<Rightarrow> (case old of None \<Rightarrow> [] | Some p \<Rightarrow> preferences p)),
         purchase_history =
           (case last_supplied (map arg_purchase_history cs) of
              Some hs \<Rightarrow> hs
            | None \<Rightarrow> (case old of None \<Rightarrow> [] | Some p \<Rightarrow> purchase_history p))\<rparr>)"

section \<open>SimpleRAG\<close>

definition SimpleRAG_init ::
  "world \<Rightarrow> files \<Rightarrow> string option \<Rightarrow> string \<Rightarrow> SimpleRAG" where
  "SimpleRAG_init w fs model_arg path =
     \<lparr>model = or_val (or_opt model_arg (getenv w ''GROQ_MODEL'')) ''groq-mixtral-v1'',
      documents = [],
      conversation_history = [],
      client =
        (case groq w of
           None \<Rightarrow> None
         | Some ctor \<Rightarrow>
             (if \<not> truthy (getenv w ''GROQ_API_KEY'') then None
              else (case ctor (or_val (getenv w ''GROQ_API_KEY'') []) of
                      Inl e \<Rightarrow> None
                    | Inr c \<Rightarrow> Some c))),
      user_db = UserContextDB_init w fs path\<rparr>"

definition user_context_lines :: "profile \<Rightarrow> string list" where
  "user_context_lines user_profile =
     (let lines0 = [''Name: '' @ name user_profile];
          lines1 = (if preferences user_profile \<noteq> []
                    then lines0 @ [''Preferences: '' @ join '', '' (preferences user_profile)]
                    else lines0);
          lines2 = (if purchase_history user_profile \<noteq> []
                    then lines1 @ [''Recent interactions: '' @
                                   join '', '' (last3 (purchase_history user_profile))]
                    else lines1)
      in lines2)"

definition format_user_context :: "profile \<Rightarrow> string" where
  "format_user_context user_profile = join nl (user_context_lines user_profile)"

definition no_pdf_message :: string where
  "no_pdf_message = ''No PDF loaded. Please upload a PDF first.''"

definition not_configured_message :: string where
  "not_configured_message =
     ''Groq client not configured.'' @ nl @
     ''Set the GROQ_API_KEY environment variable (or add it to your .env) and restart the app.'' @ nl @
     ''Example (PowerShell): $env:GROQ_API_KEY = '' @ apos @ ''your_key_here'' @ apos"

definition system_prompt :: string where
  "system_prompt =
     ''You are a helpful, personalized assistant. '' @
     ''Answer questions based on the provided document context and user context. '' @
     ''Tailor your response to the user'' @ apos @ ''s preferences and history when relevant. '' @
     ''If the answer is not in the document, say '' @ apos @
     ''The information is not available in the provided document.'' @ apos"

text \<open>Lines 195 to 228 of \<open>generate_response\<close>, which build the messages of the request.\<close>

definition build_messages :: "string \<Rightarrow> string option \<Rightarrow> SimpleRAG \<Rightarrow> message list" where
  "build_messages query uid self =
     (let context = join (nl @ nl) (map doc_text (documents self));
          user_context_str =
            (case uid of
               None \<Rightarrow> []
             | Some u \<Rightarrow>
                 (if u = [] then []
                  else (case get_user (user_db self) u of
                          Some user_profile \<Rightarrow> format_user_context user_profile
                        | None \<Rightarrow> ''User ID: '' @ u @ '' (no profile data available)'')));
          user_message0 = ''Document context:'' @ nl @ context;
          user_message1 =
            (if user_context_str \<noteq> []
             then user_message0 @ nl @ nl @ ''User Context:'' @ nl @ user_context_str
             else user_message0);
          user_message = user_message1 @ nl @ nl @ ''Question: '' @ query
      in [\<lparr>role = ''system'', content = system_prompt\<rparr>,
          \<lparr>role = ''user'', content = user_message\<rparr>])"

text \<open>
  \<open>generate_response\<close> returns the answer, the object after the call, and the requests
  it sent to the client during the call, in order.
\<close>

definition generate_response ::
  "string \<Rightarrow> string option \<Rightarrow> SimpleRAG \<Rightarrow> string \<times> SimpleRAG \<times> request list" where
  "generate_response query uid self =
     (if documents self = [] then (no_pdf_message, self, [])
      else
        (let messages = build_messages query uid self;
             self1 = self\<lparr>conversation_history :=
                       conversation_history self @ [\<lparr>role = ''user'', content = query\<rparr>]\<rparr>
         in (case client self of
               None \<Rightarrow> (not_configured_message, self1, [])
             | Some c \<Rightarrow>
                 (let req = \<lparr>req_model = model self, req_messages = messages,
                             temperature = 7 / 10, max_tokens = 1000\<rparr>
                  in (case c req of
                        Inl e \<Rightarrow> (''Error generating response: '' @ e, self1, [req])
                      | Inr resp \<Rightarrow>
                          (let answer =
                                 (case choice_content resp of
                                    Some a \<Rightarrow> a
                                  | None \<Rightarrow> or_val (text_attr resp) (str_repr resp));
                               self2 = self1\<lparr>conversation_history :=
                                         conversation_history self1 @
                                         [\<lparr>role = ''assistant'', content = answer\<rparr>]\<rparr>
                           in (answer, self2, [req])))))))"

text \<open>
  The loop of \<open>remove_document\<close> over \<open>enumerate(self.documents)\<close>, at index \<open>i\<close>.
\<close>

function remove_document_loop :: "string \<Rightarrow> nat \<Rightarrow> document list \<Rightarrow> bool \<times> document list" where
  "remove_document_loop pdf_name i docs =
     (if i < length docs
      then (if doc_name (docs ! i) = pdf_name then (True, pop i docs)
            else remove_document_loop pdf_name (Suc i) docs)
      else (False, docs))"
  by pat_completeness auto
termination
  by (relation "measure (\<lambda>(n, i, docs). length docs - i)") auto

declare remove_document_loop.simps [simp del]

definition remove_document :: "string \<Rightarrow> SimpleRAG \<Rightarrow> bool \<times> SimpleRAG" where
  "remove_document pdf_name self =
     (case remove_document_loop pdf_name 0 (documents self) of
        (found, docs') \<Rightarrow> (found, self\<lparr>documents := docs'\<rparr>))"

definition clear_documents :: "SimpleRAG \<Rightarrow> SimpleRAG" where
  "clear_documents self = self\<lparr>documents := [], conversation_history := []\<rparr>"

section \<open>Concrete data for the examples\<close>

definition ann :: profile where
  "ann = \<lparr>user_id = ''u1'', name = ''Ann'', preferences = [''x'', ''y''],
          purchase_history = [''a'', ''b'', ''c'', ''d'']\<rparr>"

definition manual :: document where
  "manual = \<lparr>doc_name = ''manual.pdf'', doc_text = ''T'', pages = 1, char_count = 1\<rparr>"

definition faq :: document where
  "faq = \<lparr>doc_name = ''faq.pdf'', doc_text = ''F'', pages = 1, char_count = 1\<rparr>"

definition manual2 :: document where
  "manual2 = \<lparr>doc_name = ''manual.pdf'', doc_text = ''T2'', pages = 2, char_count = 2\<rparr>"

text \<open>
  A world where every path can be opened, no environment variable is set and \<open>groq\<close>
  is not installed.
\<close>

definition open_world :: world where
  "open_world =
     \<lparr>can_write = (\<lambda>_. True), can_read = (\<lambda>_. True), getenv = Map.empty, groq = None\<rparr>"

definition ann_db :: UserContextDB where
  "ann_db = \<lparr>users = DAList.update ''u1'' ann DAList.empty, users_file = ''users.json''\<rparr>"

definition echo_client :: groq_client where
  "echo_client req = Inr \<lparr>choice_content = Some ''ok'', text_attr = None, str_repr = ''r''\<rparr>"

definition failing_client :: groq_client where
  "failing_client req = Inl ''timeout''"

definition demo_rag :: "document list \<Rightarrow> groq_client option \<Rightarrow> SimpleRAG" where
  "demo_rag docs c =
     \<lparr>model = ''groq-mixtral-v1'', documents = docs,
      conversation_history = [\<lparr>role = ''user'', content = ''hi''\<rparr>],
      client = c, user_db = ann_db\<rparr>"

section \<open>Profile store: merge on update\<close>

lemma create_or_update_user_users:
  "DAList.lookup (users (fst (snd (create_or_update_user w uid nm prefs hist self fs)))) u =
     (if u = uid then Some (fst (create_or_update_user w uid nm prefs hist self fs))
      else DAList.lookup (users self) u)"
  by (simp add: create_or_update_user_def Let_def DAList.lookup_update)

lemma create_or_update_user_profile:
  "fst (create_or_update_user w uid nm prefs hist self fs) =
     (case DAList.lookup (users self) uid of
        None \<Rightarrow> \<lparr>user_id = uid, name = or_val nm (''User_'' @ uid),
                 preferences = or_val prefs [], purchase_history = or_val hist []\<rparr>
      | Some p0 \<Rightarrow> \<lparr>user_id = user_id p0, name = or_val nm (name p0),
                 preferences = or_val prefs (preferences p0),
                 purchase_history = or_val hist (purchase_history p0)\<rparr>)"
  by (simp add: create_or_update_user_def Let_def or_val_def split: option.splits)

lemma supplied_Cons:
  "(case last_supplied (v # vs) of Some n \<Rightarrow> n | None \<Rightarrow> d) =
   (case last_supplied vs of Some n \<Rightarrow> n | None \<Rightarrow> or_val v d)"
  by (simp add: or_val_def truthy_def split: option.splits)

lemma merged_profile_Cons:
  "merged_profile uid old (c # cs) =
     merged_profile uid
       (Some (case old of
          None \<Rightarrow> \<lparr>user_id = uid, name = or_val (arg_name c) (''User_'' @ uid),
                   preferences = or_val (arg_preferences c) [],
                   purchase_history = or_val (arg_purchase_history c) []\<rparr>
        | Some p0 \<Rightarrow> \<lparr>user_id = user_id p0, name = or_val (arg_name c) (name p0),
                   preferences = or_val (arg_preferences c) (preferences p0),
                   purchase_history = or_val (arg_purchase_history c) (purchase_history p0)\<rparr>)) cs"
  by (cases old; cases cs)
     (simp_all add: merged_profile_def supplied_Cons del: last_supplied.simps(2) cong: option.case_cong)

text \<open>
  Three calls on an empty store: the second call for \<open>u1\<close> passes an empty name and an
  empty preference list, which leave the stored values, and a history, which is stored.
\<close>

lemma upsert_merge_example:
  "get_user
     (fst (run_upserts open_world
        [\<lparr>arg_user_id = ''u1'', arg_name = Some ''Ann'', arg_preferences = Some [''x'', ''y''],
          arg_purchase_history = None\<rparr>,
         \<lparr>arg_user_id = ''u2'', arg_name = None, arg_preferences = None,
          arg_purchase_history = Some [''z'']\<rparr>,
         \<lparr>arg_user_id = ''u1'', arg_name = Some '''', arg_preferences = Some [],
          arg_purchase_history = Some [''a'']\<rparr>]
        \<lparr>users = DAList.empty, users_file = ''users.json''\<rparr> Map.empty)) ''u1'' =
   Some \<lparr>user_id = ''u1'', name = ''Ann'', preferences = [''x'', ''y''],
         purchase_history = [''a'']\<rparr>"
  by (simp add: create_or_update_user_def get_user_def or_val_def Let_def DAList.lookup_update)

text \<open>
  Claim C1 (upsert merge semantics).  After any sequence of \<open>create_or_update_user\<close>
  calls, from any store, \<open>get_user\<close> for an id returns the profile whose name,
  preferences and purchase history are each the last non-empty value that the calls for
  this id supplied; a field that no call supplied keeps the value the store had, and on
  a new id it is the default (\<open>User_\<close> followed by the id, the empty list, the empty
  list).  Calls for other ids do not matter, and an id with no call keeps what it had.
\<close>

theorem upsert_merge_semantics:
  "get_user (fst (run_upserts w cs self fs)) uid =
     merged_profile uid (DAList.lookup (users self) uid)
       (filter (\<lambda>c. arg_user_id c = uid) cs)"
proof (induction cs arbitrary: self fs)
  case Nil
  show ?case by (simp add: get_user_def merged_profile_def)
next
  case (Cons c cs)
  obtain p self' fs' where step:
    "create_or_update_user w (arg_user_id c) (arg_name c) (arg_preferences c)
        (arg_purchase_history c) self fs = (p, self', fs')"
    by (cases "create_or_update_user w (arg_user_id c) (arg_name c) (arg_preferences c)
        (arg_purchase_history c) self fs") auto
  have u: "DAList.lookup (users self') uid =
             (if uid = arg_user_id c then Some p else DAList.lookup (users self) uid)"
    using create_or_update_user_users [of w "arg_user_id c" "arg_name c" "arg_preferences c"
        "arg_purchase_history c" self fs uid] step by simp
  have p: "p = (case DAList.lookup (users self) (arg_user_id c) of
        None \<Rightarrow> \<lparr>user_id = arg_user_id c, name = or_val (arg_name c) (''User_'' @ arg_user_id c),
                 preferences = or_val (arg_preferences c) [], purchase_history = or_val (arg_purchase_history c) []\<rparr>
      | Some p0 \<Rightarrow> \<lparr>user_id = user_id p0, name = or_val (arg_name c) (name p0),
                 preferences = or_val (arg_preferences c) (preferences p0),
                 purchase_history = or_val (arg_purchase_history c) (purchase_history p0)\<rparr>)"
    using create_or_update_user_profile [of w "arg_user_id c" "arg_name c" "arg_preferences c"
        "arg_purchase_history c" self fs] step by simp
  have "get_user (fst (run_upserts w (c # cs) self fs)) uid =
        merged_profile uid (DAList.lookup (users self') uid)
          (filter (\<lambda>c. arg_user_id c = uid) cs)"
    using Cons.IH [of self' fs'] step by simp
  also have "\<dots> = merged_profile uid (DAList.lookup (users self) uid)
                      (filter (\<lambda>c. arg_user_id c = uid) (c # cs))"
    unfolding u p by (simp add: merged_profile_Cons cong: option.case_cong)
  finally show ?case .
qed

section \<open>The decoder reads what the encoder wrote\<close>























section \<open>Profile store: saving and reloading\<close>










text \<open>
  The file that \<open>save_to_file\<close> writes for the store with the one profile of \<open>u1\<close>.
\<close>

lemma save_to_file_example:
  "save_to_file open_world ann_db Map.empty ''users.json'' =
     Some (join nl
       [''{'',
        ''  '' @ [dquote] @ ''u1'' @ [dquote] @ '': {'',
        ''    '' @ [dquote] @ ''user_id'' @ [dquote] @ '': '' @ [dquote] @ ''u1'' @ [dquote] @ '','',
        ''    '' @ [dquote] @ ''name'' @ [dquote] @ '': '' @ [dquote] @ ''Ann'' @ [dquote] @ '','',
        ''    '' @ [dquote] @ ''preferences'' @ [dquote] @ '': ['',
        ''      '' @ [dquote] @ ''x'' @ [dquote] @ '','',
        ''      '' @ [dquote] @ ''y'' @ [dquote],
        ''    ],'',
        ''    '' @ [dquote] @ ''purchase_history'' @ [dquote] @ '': ['',
        ''      '' @ [dquote] @ ''a'' @ [dquote] @ '','',
        ''      '' @ [dquote] @ ''b'' @ [dquote] @ '','',
        ''      '' @ [dquote] @ ''c'' @ [dquote] @ '','',
        ''      '' @ [dquote] @ ''d'' @ [dquote],
        ''    ]'',
        ''  }'',
        ''}''])"
  by (simp add: save_to_file_def open_world_def ann_db_def ann_def json_dumps_def
      json_of_users_def json_of_profile_def DAList.update.rep_eq DAList.empty.rep_eq
      encode_string_def escape_char_def newline_indent_def nl_def dquote_def backslash_def
      numeral_2_eq_2 numeral_3_eq_3)



section \<open>Answering a question\<close>

text \<open>
  Claim C3 (empty collection).  With no document loaded, \<open>generate_response\<close> returns
  the fixed message, leaves the object as it was and sends no request to the client,
  whatever the question, the user id and the client are.
\<close>

theorem empty_collection_short_circuit:
  "documents self = [] \<Longrightarrow>
   generate_response query uid self = (''No PDF loaded. Please upload a PDF first.'', self, [])"
  by (simp add: generate_response_def no_pdf_message_def)

theorem empty_collection_short_circuit_witness:
  "documents (demo_rag [] (Some echo_client)) = [] \<and>
   generate_response ''What is x?'' (Some ''u1'') (demo_rag [] (Some echo_client)) =
     (''No PDF loaded. Please upload a PDF first.'', demo_rag [] (Some echo_client), [])"
  using empty_collection_short_circuit [of "demo_rag [] (Some echo_client)" "''What is x?''" "Some ''u1''"]
  by (simp add: demo_rag_def)

text \<open>
  Claim C7 (client not configured).  With at least one document loaded and no client,
  \<open>generate_response\<close> returns the fixed guidance text and sends no request.
\<close>

theorem unconfigured_client_guidance:
  "documents self \<noteq> [] \<Longrightarrow> client self = None \<Longrightarrow>
   fst (generate_response query uid self) =
     ''Groq client not configured.'' @ nl @
     ''Set the GROQ_API_KEY environment variable (or add it to your .env) and restart the app.'' @ nl @
     ''Example (PowerShell): $env:GROQ_API_KEY = '' @ apos @ ''your_key_here'' @ apos \<and>
   snd (snd (generate_response query uid self)) = []"
  by (simp add: generate_response_def not_configured_message_def Let_def)

theorem unconfigured_client_guidance_witness:
  "documents (demo_rag [manual] None) \<noteq> [] \<and> client (demo_rag [manual] None) = None \<and>
   fst (generate_response ''What is x?'' (Some ''u1'') (demo_rag [manual] None)) =
     not_configured_message \<and>
   snd (snd (generate_response ''What is x?'' (Some ''u1'') (demo_rag [manual] None))) = []"
  using unconfigured_client_guidance [of "demo_rag [manual] None" "''What is x?''" "Some ''u1''"]
  by (simp add: demo_rag_def not_configured_message_def)

text \<open>
  Claim C10 (history on the failure paths).  With at least one document loaded, the
  user turn is appended to the conversation history in every case.  When no client is
  configured, or when the call to the client raises, the history afterwards is the old
  history followed by the user turn alone: no assistant turn is appended, the guidance
  text or the error text is returned, and the object is otherwise unchanged.
\<close>

theorem user_turn_recorded_on_failure:
  "documents self \<noteq> [] \<Longrightarrow>
   (client self = None \<longrightarrow>
      generate_response query uid self =
        (not_configured_message,
         self\<lparr>conversation_history :=
                conversation_history self @ [\<lparr>role = ''user'', content = query\<rparr>]\<rparr>,
         [])) \<and>
   (client self = Some c \<and>
    c \<lparr>req_model = model self, req_messages = build_messages query uid self,
       temperature = 7 / 10, max_tokens = 1000\<rparr> = Inl e \<longrightarrow>
      generate_response query uid self =
        (''Error generating response: '' @ e,
         self\<lparr>conversation_history :=
                conversation_history self @ [\<lparr>role = ''user'', content = query\<rparr>]\<rparr>,
         [\<lparr>req_model = model self, req_messages = build_messages query uid self,
           temperature = 7 / 10, max_tokens = 1000\<rparr>])) \<and>
   take (Suc (length (conversation_history self)))
        (conversation_history (fst (snd (generate_response query uid self)))) =
     conversation_history self @ [\<lparr>role = ''user'', content = query\<rparr>]"
  by (simp add: generate_response_def Let_def split: option.splits sum.splits)

theorem user_turn_recorded_on_failure_witness:
  "documents (demo_rag [manual] None) \<noteq> [] \<and>
   client (demo_rag [manual] None) = None \<and>
   conversation_history (fst (snd (generate_response ''q'' None (demo_rag [manual] None)))) =
     [\<lparr>role = ''user'', content = ''hi''\<rparr>, \<lparr>role = ''user'', content = ''q''\<rparr>] \<and>
   documents (demo_rag [manual] (Some failing_client)) \<noteq> [] \<and>
   client (demo_rag [manual] (Some failing_client)) = Some failing_client \<and>
   fst (generate_response ''q'' None (demo_rag [manual] (Some failing_client))) =
     ''Error generating response: timeout'' \<and>
   conversation_history
     (fst (snd (generate_response ''q'' None (demo_rag [manual] (Some failing_client))))) =
     [\<lparr>role = ''user'', content = ''hi''\<rparr>, \<lparr>role = ''user'', content = ''q''\<rparr>]"
  using user_turn_recorded_on_failure [where self = "demo_rag [manual] None" and c = failing_client
          and query = "''q''" and uid = None and e = "''timeout''"]
        user_turn_recorded_on_failure [where self = "demo_rag [manual] (Some failing_client)"
          and c = failing_client and query = "''q''" and uid = None and e = "''timeout''"]
  by (simp add: demo_rag_def failing_client_def manual_def)

section \<open>Formatting the user context\<close>

lemma join_snoc: "xs \<noteq> [] \<Longrightarrow> join sep (xs @ [x]) = join sep xs @ sep @ x"
  by (induction sep xs rule: join.induct) auto

lemma last3_long:
  assumes "3 < length xs"
  shows "last3 xs = [xs ! (length xs - 3), xs ! (length xs - 2), xs ! (length xs - 1)]"
proof -
  define k where "k = length xs - 3"
  have k: "k < length xs" "Suc k < length xs" "Suc (Suc k) < length xs"
    "length xs = Suc (Suc (Suc k))"
    using assms by (simp_all add: k_def)
  have "drop k xs = xs ! k # drop (Suc k) xs"
    using k(1) by (simp add: Cons_nth_drop_Suc)
  also have "drop (Suc k) xs = xs ! Suc k # drop (Suc (Suc k)) xs"
    using k(2) by (simp add: Cons_nth_drop_Suc)
  also have "drop (Suc (Suc k)) xs = xs ! Suc (Suc k) # drop (Suc (Suc (Suc k))) xs"
    using k(3) by (simp add: Cons_nth_drop_Suc)
  also have "drop (Suc (Suc (Suc k))) xs = []"
    using k(4) by simp
  finally have "drop k xs = [xs ! k, xs ! Suc k, xs ! Suc (Suc k)]" .
  moreover have "length xs - 2 = Suc k" "length xs - 1 = Suc (Suc k)"
    using k(4) by simp_all
  ultimately show ?thesis
    by (simp add: last3_def k_def)
qed

text \<open>
  Claim C4 (history truncation).  For a profile with more than three entries in its
  purchase history, the lines of the user context are the name line, the preferences
  line when there are preferences, and last the history line, which is
  \<open>Recent interactions: \<close> followed by the third last, the second last and the last
  entry, in this order, joined with a comma and a space; the formatted context ends
  with a newline and this line.
\<close>

theorem history_line_last_three:
  "3 < length (purchase_history p) \<Longrightarrow>
   (let h = purchase_history p; n = length h;
        line = ''Recent interactions: '' @ h ! (n - 3) @ '', '' @ h ! (n - 2) @ '', '' @ h ! (n - 1)
    in user_context_lines p =
         [''Name: '' @ name p] @
         (if preferences p \<noteq> [] then [''Preferences: '' @ join '', '' (preferences p)] else []) @
         [line]
       \<and> format_user_context p = join nl (butlast (user_context_lines p)) @ nl @ line)"
proof -
  assume long: "3 < length (purchase_history p)"
  let ?h = "purchase_history p"
  let ?n = "length ?h"
  let ?line = "''Recent interactions: '' @ ?h ! (?n - 3) @ '', '' @ ?h ! (?n - 2) @ '', '' @ ?h ! (?n - 1)"
  let ?pre = "[''Name: '' @ name p] @
         (if preferences p \<noteq> [] then [''Preferences: '' @ join '', '' (preferences p)] else [])"
  have ne: "?h \<noteq> []" using long by auto
  have j: "join '', '' (last3 ?h) = ?h ! (?n - 3) @ '', '' @ ?h ! (?n - 2) @ '', '' @ ?h ! (?n - 1)"
    by (simp add: last3_long [OF long])
  have lines: "user_context_lines p = ?pre @ [?line]"
    using ne by (simp add: user_context_lines_def Let_def j)
  have "format_user_context p = join nl (?pre @ [?line])"
    by (simp only: format_user_context_def lines)
  also have "\<dots> = join nl ?pre @ nl @ ?line"
    by (rule join_snoc) simp
  finally have fmt: "format_user_context p = join nl ?pre @ nl @ ?line" .
  have "butlast (user_context_lines p) = ?pre"
    by (simp only: lines butlast_snoc)
  with fmt have fmt': "format_user_context p = join nl (butlast (user_context_lines p)) @ nl @ ?line"
    by simp
  show ?thesis
    unfolding Let_def by (rule conjI [OF lines [unfolded append_assoc] fmt'])
qed

theorem history_line_last_three_witness:
  "3 < length (purchase_history ann) \<and>
   user_context_lines ann = [''Name: Ann'', ''Preferences: x, y'', ''Recent interactions: b, c, d''] \<and>
   format_user_context ann =
     ''Name: Ann'' @ nl @ ''Preferences: x, y'' @ nl @ ''Recent interactions: b, c, d''"
  using history_line_last_three [of ann]
  by (simp add: ann_def Let_def)

text \<open>
  Claim C8 (assembled prompt).  After \<open>create_or_update_user\<close> for \<open>u1\<close> with name
  \<open>Ann\<close>, preferences \<open>x, y\<close> and history \<open>a, b, c, d\<close>, on any store, with one
  loaded document whose text is \<open>T\<close>, the messages built for the question
  \<open>What is x?\<close> are the system message with the fixed instruction followed by one user
  message, whose content has \<open>T\<close>, then \<open>x, y\<close>, then \<open>b, c, d\<close>, then the
  question, in this order.
\<close>

theorem assembled_prompt_scenario:
  "(let db' = fst (snd (create_or_update_user w ''u1'' (Some ''Ann'') (Some [''x'', ''y''])
                          (Some [''a'', ''b'', ''c'', ''d'']) (user_db self) fs));
        self' = self\<lparr>documents := [doc\<lparr>doc_text := ''T''\<rparr>], user_db := db'\<rparr>
    in build_messages ''What is x?'' (Some ''u1'') self' =
         [\<lparr>role = ''system'', content = system_prompt\<rparr>,
          \<lparr>role = ''user'',
           content =
             (''Document context:'' @ nl) @ ''T'' @
             (nl @ nl @ ''User Context:'' @ nl @ ''Name: Ann'' @ nl @ ''Preferences: '') @ ''x, y'' @
             (nl @ ''Recent interactions: '') @ ''b, c, d'' @
             (nl @ nl @ ''Question: '') @ ''What is x?''\<rparr>])"
  by (simp add: create_or_update_user_def build_messages_def get_user_def Let_def
        format_user_context_def user_context_lines_def last3_def nl_def or_val_def
        split: option.splits)

section \<open>The document collection\<close>

lemma takeWhile_stops:
  "length (takeWhile P xs) < length xs \<longleftrightarrow> (\<exists>x \<in> set xs. \<not> P x)"
  by (induction xs) auto

lemma remove_document_loop_first:
  assumes "i \<le> length (takeWhile (\<lambda>d. doc_name d \<noteq> n) docs)"
  shows "remove_document_loop n i docs =
           (if length (takeWhile (\<lambda>d. doc_name d \<noteq> n) docs) < length docs
            then (True, pop (length (takeWhile (\<lambda>d. doc_name d \<noteq> n) docs)) docs)
            else (False, docs))"
  using assms
proof (induction n i docs rule: remove_document_loop.induct)
  case (1 n i docs)
  let ?k = "length (takeWhile (\<lambda>d. doc_name d \<noteq> n) docs)"
  have kle: "?k \<le> length docs" by (rule length_takeWhile_le)
  show ?case
  proof (cases "i < length docs")
    case False
    with "1.prems" kle have "?k = length docs" by simp
    with False show ?thesis
      by (subst remove_document_loop.simps) simp
  next
    case True
    show ?thesis
    proof (cases "doc_name (docs ! i) = n")
      case hit: True
      have "\<not> i < ?k"
      proof
        assume lt: "i < ?k"
        then have "takeWhile (\<lambda>d. doc_name d \<noteq> n) docs ! i = docs ! i"
          by (rule takeWhile_nth)
        moreover have "takeWhile (\<lambda>d. doc_name d \<noteq> n) docs ! i
                         \<in> set (takeWhile (\<lambda>d. doc_name d \<noteq> n) docs)"
          using lt by (rule nth_mem)
        ultimately have "doc_name (docs ! i) \<noteq> n"
          by (auto dest: set_takeWhileD)
        with hit show False by simp
      qed
      with "1.prems" have "?k = i" by simp
      with True hit show ?thesis
        by (subst remove_document_loop.simps) simp
    next
      case miss: False
      have "i \<noteq> ?k"
      proof
        assume e: "i = ?k"
        with True have "?k < length docs" by simp
        then have "\<not> doc_name (docs ! ?k) \<noteq> n"
          by (rule nth_length_takeWhile)
        with e miss show False by simp
      qed
      with "1.prems" have "Suc i \<le> ?k" by simp
      with "1.IH" [OF True miss] have
        "remove_document_loop n (Suc i) docs =
           (if ?k < length docs then (True, pop ?k docs) else (False, docs))" .
      with True miss show ?thesis
        by (subst remove_document_loop.simps) simp
    qed
  qed
qed

text \<open>
  Claim C5 (document removal).  When a document has the given name,
  \<open>remove_document\<close> returns \<open>True\<close> and removes the document at the first index
  whose name is equal, keeping all others in order; when none has, it returns \<open>False\<close>
  and the object is unchanged.
\<close>

theorem remove_document_first_match:
  "(pdf_name \<in> doc_name ` set (documents self) \<longrightarrow>
      (\<exists>i < length (documents self).
          doc_name (documents self ! i) = pdf_name \<and>
          (\<forall>j < i. doc_name (documents self ! j) \<noteq> pdf_name) \<and>
          remove_document pdf_name self =
            (True, self\<lparr>documents := take i (documents self) @ drop (Suc i) (documents self)\<rparr>))) \<and>
   (pdf_name \<notin> doc_name ` set (documents self) \<longrightarrow>
      remove_document pdf_name self = (False, self))"
proof -
  let ?docs = "documents self"
  let ?P = "\<lambda>d. doc_name d \<noteq> pdf_name"
  let ?k = "length (takeWhile ?P ?docs)"
  have loop: "remove_document_loop pdf_name 0 ?docs =
           (if ?k < length ?docs then (True, pop ?k ?docs) else (False, ?docs))"
    by (rule remove_document_loop_first) simp
  have present: "?k < length ?docs \<longleftrightarrow> pdf_name \<in> doc_name ` set ?docs"
    by (auto simp: takeWhile_stops)
  have before: "\<forall>j < ?k. doc_name (?docs ! j) \<noteq> pdf_name"
  proof (intro allI impI)
    fix j assume lt: "j < ?k"
    then have "takeWhile ?P ?docs ! j = ?docs ! j" by (rule takeWhile_nth)
    moreover have "takeWhile ?P ?docs ! j \<in> set (takeWhile ?P ?docs)"
      using lt by (rule nth_mem)
    ultimately show "doc_name (?docs ! j) \<noteq> pdf_name"
      by (auto dest: set_takeWhileD)
  qed
  show ?thesis
  proof (intro conjI impI)
    assume "pdf_name \<in> doc_name ` set ?docs"
    with present have k: "?k < length ?docs" by simp
    then have "doc_name (?docs ! ?k) = pdf_name"
      using nth_length_takeWhile [of ?P ?docs] by simp
    moreover have "remove_document pdf_name self =
        (True, self\<lparr>documents := take ?k ?docs @ drop (Suc ?k) ?docs\<rparr>)"
      using k by (simp add: remove_document_def loop pop_def)
    ultimately show "\<exists>i < length ?docs.
          doc_name (?docs ! i) = pdf_name \<and>
          (\<forall>j < i. doc_name (?docs ! j) \<noteq> pdf_name) \<and>
          remove_document pdf_name self =
            (True, self\<lparr>documents := take i ?docs @ drop (Suc i) ?docs\<rparr>)"
      using k before by blast
  next
    assume "pdf_name \<notin> doc_name ` set ?docs"
    with present have "\<not> ?k < length ?docs" by simp
    then show "remove_document pdf_name self = (False, self)"
      by (simp add: remove_document_def loop)
  qed
qed

theorem remove_document_first_match_witness:
  "''manual.pdf'' \<in> doc_name ` set (documents (demo_rag [faq, manual, manual2] None)) \<and>
   remove_document ''manual.pdf'' (demo_rag [faq, manual, manual2] None) =
     (True, demo_rag [faq, manual2] None) \<and>
   ''other.pdf'' \<notin> doc_name ` set (documents (demo_rag [faq, manual, manual2] None)) \<and>
   remove_document ''other.pdf'' (demo_rag [faq, manual, manual2] None) =
     (False, demo_rag [faq, manual, manual2] None)"
proof -
  let ?s = "demo_rag [faq, manual, manual2] None"
  have a: "''manual.pdf'' \<in> doc_name ` set (documents ?s)"
    by (simp add: demo_rag_def manual_def)
  have b: "''other.pdf'' \<notin> doc_name ` set (documents ?s)"
    by (simp add: demo_rag_def manual_def faq_def manual2_def)
  from a remove_document_first_match [of "''manual.pdf''" ?s]
  obtain i where i: "i < length (documents ?s)" "doc_name (documents ?s ! i) = ''manual.pdf''"
      "\<forall>j < i. doc_name (documents ?s ! j) \<noteq> ''manual.pdf''"
      "remove_document ''manual.pdf'' ?s =
         (True, ?s\<lparr>documents := take i (documents ?s) @ drop (Suc i) (documents ?s)\<rparr>)"
    by blast
  have "i \<noteq> 0"
  proof
    assume "i = 0"
    with i(2) show False by (simp add: demo_rag_def faq_def)
  qed
  moreover have "\<not> 1 < i"
  proof
    assume "1 < i"
    with i(3) have "doc_name (documents ?s ! 1) \<noteq> ''manual.pdf''" by blast
    then show False by (simp add: demo_rag_def manual_def)
  qed
  ultimately have "i = 1" by simp
  with i(4) have c: "remove_document ''manual.pdf'' ?s = (True, demo_rag [faq, manual2] None)"
    by (simp add: demo_rag_def)
  from b remove_document_first_match [of "''other.pdf''" ?s]
  have d: "remove_document ''other.pdf'' ?s = (False, ?s)" by blast
  from a b c d show ?thesis by blast
qed

text \<open>
  Claim C6 (clearing).  After \<open>clear_documents\<close> both the document list and the
  conversation history are empty, whatever they held.
\<close>

theorem clear_documents_clears_both:
  "documents (clear_documents self) = [] \<and> conversation_history (clear_documents self) = []"
  by (simp add: clear_documents_def)

section \<open>Construction\<close>

text \<open>
  Claim C9 (model resolution).  The model of a new \<open>SimpleRAG\<close> is the explicit
  argument when it is given and not empty, otherwise the value of \<open>GROQ_MODEL\<close> when it
  is set and not empty, otherwise \<open>groq-mixtral-v1\<close>.
\<close>

theorem model_resolution_precedence:
  "(model_arg = Some a \<and> a \<noteq> [] \<longrightarrow> model (SimpleRAG_init w fs model_arg path) = a) \<and>
   (\<not> truthy model_arg \<and> getenv w ''GROQ_MODEL'' = Some e \<and> e \<noteq> [] \<longrightarrow>
      model (SimpleRAG_init w fs model_arg path) = e) \<and>
   (\<not> truthy model_arg \<and> \<not> truthy (getenv w ''GROQ_MODEL'') \<longrightarrow>
      model (SimpleRAG_init w fs model_arg path) = ''groq-mixtral-v1'')"
  by (auto simp: SimpleRAG_init_def or_val_def or_opt_def truthy_def split: option.splits)

theorem model_resolution_precedence_witness:
  "model (SimpleRAG_init (open_world\<lparr>getenv := [''GROQ_MODEL'' \<mapsto> ''llama'']\<rparr>) Map.empty
            (Some ''openai/gpt-oss-20b'') ''users.json'') = ''openai/gpt-oss-20b'' \<and>
   model (SimpleRAG_init (open_world\<lparr>getenv := [''GROQ_MODEL'' \<mapsto> ''llama'']\<rparr>) Map.empty
            (Some '''') ''users.json'') = ''llama'' \<and>
   model (SimpleRAG_init (open_world\<lparr>getenv := [''GROQ_MODEL'' \<mapsto> '''']\<rparr>) Map.empty
            None ''users.json'') = ''groq-mixtral-v1''"
  using model_resolution_precedence [of "Some ''openai/gpt-oss-20b''" "''openai/gpt-oss-20b''"
          "open_world\<lparr>getenv := [''GROQ_MODEL'' \<mapsto> ''llama'']\<rparr>" Map.empty "''users.json''" "''llama''"]
        model_resolution_precedence [of "Some ''''" "''x''"
          "open_world\<lparr>getenv := [''GROQ_MODEL'' \<mapsto> ''llama'']\<rparr>" Map.empty "''users.json''" "''llama''"]
        model_resolution_precedence [of None "''x''"
          "open_world\<lparr>getenv := [''GROQ_MODEL'' \<mapsto> '''']\<rparr>" Map.empty "''users.json''" "''y''"]
  by (simp add: open_world_def truthy_def)

end
